theory Spec2Isabelle
  imports Main "HOL-Library.Sublist"
begin

section \<open>Python values and exceptions\<close>

text \<open>
  The values that \<^verbatim>\<open>json.loads\<close> can produce.  A decoded object is an association
  list; the first binding of a key is the effective one.  \<open>JNull\<close> is Python's \<^verbatim>\<open>None\<close>.
  Numbers are never computed with, so a float keeps only its literal text.
  Strings are modelled as ASCII text.
\<close>

datatype json =
    JNull
  | JBool bool
  | JInt int
  | JFloat string
  | JString string
  | JArray "json list"
  | JObject "(string \<times> json) list"

text \<open>
  Exceptions as values.  \<open>AttributeError v a\<close>: the value \<open>v\<close> has no attribute \<open>a\<close>;
  \<open>KeyError k\<close>: the key \<open>k\<close> is missing; \<open>TypeError v\<close>: the value \<open>v\<close> has the wrong
  type for the operation applied to it; \<open>JSONDecodeError m\<close>: the parser rejected its
  input with message \<open>m\<close>; \<open>External m\<close>: a library or a remote service raised an
  exception whose \<^verbatim>\<open>str(e)\<close> is \<open>m\<close>.  All of them are subclasses of \<^verbatim>\<open>Exception\<close>.
\<close>

datatype exn =
    AttributeError json string
  | KeyError json
  | TypeError json
  | JSONDecodeError string
  | External string

text \<open>\<^verbatim>\<open>d.get(k)\<close> on a decoded object: the value, or \<^verbatim>\<open>None\<close> when the key is absent.\<close>

definition dict_get :: "(string \<times> json) list \<Rightarrow> string \<Rightarrow> json" where
  "dict_get d k = (case map_of d k of None \<Rightarrow> JNull | Some v \<Rightarrow> v)"

text \<open>\<^verbatim>\<open>data[k]\<close> with a string key \<open>k\<close>, on any decoded value.\<close>

fun subscript :: "json \<Rightarrow> string \<Rightarrow> exn + json" where
  "subscript (JObject d) k =
     (case map_of d k of None \<Rightarrow> Inl (KeyError (JString k)) | Some v \<Rightarrow> Inr v)"
| "subscript v k = Inl (TypeError v)"

text \<open>\<^verbatim>\<open>str.isspace\<close>, \<^verbatim>\<open>str.strip\<close> and \<^verbatim>\<open>str.lower\<close> on ASCII text.\<close>

definition isspace :: "char \<Rightarrow> bool" where
  "isspace c = (of_char c \<in> {9, 10, 11, 12, 13, 28, 29, 30, 31, 32 :: nat})"

definition strip :: "string \<Rightarrow> string" where
  "strip s = rev (dropWhile isspace (rev (dropWhile isspace s)))"

definition lower_char :: "char \<Rightarrow> char" where
  "lower_char c =
     (if 65 \<le> (of_char c :: nat) \<and> (of_char c :: nat) \<le> 90
      then char_of (of_char c + 32 :: nat) else c)"

definition lower :: "string \<Rightarrow> string" where
  "lower s = map lower_char s"

section \<open>The environment\<close>

text \<open>
  Everything outside the two programs: the JSON codec of the standard library, the HTTP
  client, the shell, the file system.  Operations with an effect take the state of the
  world \<open>'w\<close> and return the new one; an operation that can raise returns a sum.
\<close>

record response =
  status_code :: int
  resp_text :: string

record completed_process =
  stdout :: string
  stderr :: string

record 'w env =
  json_loads :: "string \<Rightarrow> string + json"
  json_dumps :: "json \<Rightarrow> string"
  exn_text :: "exn \<Rightarrow> string"
  requests_get :: "string \<Rightarrow> 'w \<Rightarrow> (exn + response) \<times> 'w"
  subprocess_run :: "json \<Rightarrow> 'w \<Rightarrow> (exn + completed_process) \<times> 'w"
  os_path_dirname :: "string \<Rightarrow> string"
  os_makedirs :: "string \<Rightarrow> 'w \<Rightarrow> (exn + unit) \<times> 'w"
  open_write :: "string \<Rightarrow> json \<Rightarrow> 'w \<Rightarrow> (exn + unit) \<times> 'w"
  open_read :: "json \<Rightarrow> 'w \<Rightarrow> (exn + string) \<times> 'w"

text \<open>
  \<^verbatim>\<open>str(e)\<close>: the message an external exception carries, the parser's message, or the
  text the interpreter gives its own exceptions.
\<close>

definition str_exn :: "'w env \<Rightarrow> exn \<Rightarrow> string" where
  "str_exn E e =
     (case e of External m \<Rightarrow> m | JSONDecodeError m \<Rightarrow> m | _ \<Rightarrow> exn_text E e)"

text \<open>\<^verbatim>\<open>json.loads(x)\<close> on a Python value: only a string is accepted.\<close>

definition loads_value :: "'w env \<Rightarrow> json \<Rightarrow> exn + json" where
  "loads_value E x =
     (case x of
        JString s \<Rightarrow> (case json_loads E s of Inl m \<Rightarrow> Inl (JSONDecodeError m) | Inr v \<Rightarrow> Inr v)
      | _ \<Rightarrow> Inl (TypeError x))"

section \<open>Tools\<close>

text \<open>
  A tool takes one Python value and the world; it returns a string or raises.  Each tool
  of the source is a \<^verbatim>\<open>try\<close> body and an \<^verbatim>\<open>except Exception\<close> handler; the body is modelled
  with its raising paths, the tool is the body under its handler.
\<close>

type_synonym 'w tool = "json \<Rightarrow> 'w \<Rightarrow> (exn + string) \<times> 'w"

subsection \<open>app.py: \<^verbatim>\<open>get_weather\<close>\<close>

definition get_weather_body :: "'w env \<Rightarrow> 'w tool" where
  "get_weather_body E city w =
     (case city of
        JString c \<Rightarrow>
          (case requests_get E (''https://wttr.in/'' @ lower c @ ''?format=%C+%t'') w of
             (Inl e, w') \<Rightarrow> (Inl e, w')
           | (Inr r, w') \<Rightarrow>
               if status_code r = 200
               then (Inr (''The weather in '' @ c @ '' is '' @ resp_text r), w')
               else (Inr ''Weather service unavailable'', w'))
      | _ \<Rightarrow> (Inl (AttributeError city ''lower''), w))"

definition get_weather :: "'w env \<Rightarrow> 'w tool" where
  "get_weather E city w =
     (case get_weather_body E city w of
        (Inl e, w') \<Rightarrow> (Inr ''Weather API error'', w')
      | (Inr s, w') \<Rightarrow> (Inr s, w'))"

definition app_tools :: "'w env \<Rightarrow> string \<rightharpoonup> 'w tool" where
  "app_tools E = [''get_weather'' \<mapsto> get_weather E]"

subsection \<open>cli.py: \<^verbatim>\<open>run_command\<close>, \<^verbatim>\<open>write_file\<close>, \<^verbatim>\<open>read_file\<close>\<close>

definition run_command_body :: "'w env \<Rightarrow> 'w tool" where
  "run_command_body E cmd w =
     (case subprocess_run E cmd w of
        (Inl e, w') \<Rightarrow> (Inl e, w')
      | (Inr result, w') \<Rightarrow>
          (let output = (if stdout result \<noteq> [] then stdout result else stderr result)
           in (Inr (if output \<noteq> [] then strip output else ''Done.''), w')))"

definition run_command :: "'w env \<Rightarrow> 'w tool" where
  "run_command E cmd w =
     (case run_command_body E cmd w of
        (Inl e, w') \<Rightarrow> (Inr (str_exn E e), w')
      | (Inr s, w') \<Rightarrow> (Inr s, w'))"

definition write_file_body :: "'w env \<Rightarrow> 'w tool" where
  "write_file_body E payload w =
     (case loads_value E payload of
        Inl e \<Rightarrow> (Inl e, w)
      | Inr data \<Rightarrow>
     (case subscript data ''filename'' of
        Inl e \<Rightarrow> (Inl e, w)
      | Inr filename \<Rightarrow>
     (case subscript data ''content'' of
        Inl e \<Rightarrow> (Inl e, w)
      | Inr content \<Rightarrow>
     (case filename of
        JString fname \<Rightarrow>
          (let dir = os_path_dirname E fname in
           case os_makedirs E (if dir \<noteq> [] then dir else ''.'') w of
             (Inl e, w1) \<Rightarrow> (Inl e, w1)
           | (Inr _, w1) \<Rightarrow>
               (case open_write E fname content w1 of
                  (Inl e, w2) \<Rightarrow> (Inl e, w2)
                | (Inr _, w2) \<Rightarrow> (Inr (fname @ '' written successfully''), w2)))
      | _ \<Rightarrow> (Inl (TypeError filename), w)))))"

definition write_file :: "'w env \<Rightarrow> 'w tool" where
  "write_file E payload w =
     (case write_file_body E payload w of
        (Inl e, w') \<Rightarrow> (Inr (''Write error: '' @ str_exn E e), w')
      | (Inr s, w') \<Rightarrow> (Inr s, w'))"

definition read_file_body :: "'w env \<Rightarrow> 'w tool" where
  "read_file_body E filename w = open_read E filename w"

definition read_file :: "'w env \<Rightarrow> 'w tool" where
  "read_file E filename w =
     (case read_file_body E filename w of
        (Inl e, w') \<Rightarrow> (Inr (''Read error: '' @ str_exn E e), w')
      | (Inr s, w') \<Rightarrow> (Inr s, w'))"

definition cli_tools :: "'w env \<Rightarrow> string \<rightharpoonup> 'w tool" where
  "cli_tools E =
     [''run_command'' \<mapsto> run_command E,
      ''write_file'' \<mapsto> write_file E,
      ''read_file'' \<mapsto> read_file E]"

section \<open>Conversation memory, console and model service\<close>

datatype role = System | User | Assistant | Developer

record message =
  role :: role
  content :: string

text \<open>
  What the programs do on the console, one event for each \<^verbatim>\<open>print\<close> call, with the values
  it prints; \<open>Sleep n\<close> is \<^verbatim>\<open>time.sleep(n)\<close>.
\<close>

datatype event =
    InvalidJsonNotice
  | RawNotice string
  | PlanNotice json
  | ToolCallNotice json json
  | ToolNameNotice json
  | ToolResultNotice string
  | AnswerNotice json
  | RateLimitNotice
  | Sleep nat

text \<open>
  The state of a running program: the module-level list \<^verbatim>\<open>message_history\<close>, the console
  so far, and the world the tools act on.
\<close>

record 'w state =
  message_history :: "message list"
  console :: "event list"
  world :: 'w

text \<open>
  \<^verbatim>\<open>message_history = [{"role": "system", "content": SYSTEM_PROMPT}]\<close>, for either
  program's prompt text.
\<close>

definition initial_state :: "string \<Rightarrow> 'w \<Rightarrow> 'w state" where
  "initial_state system_prompt w =
     \<lparr>message_history = [\<lparr>role = System, content = system_prompt\<rparr>], console = [], world = w\<rparr>"

definition append_message :: "message \<Rightarrow> 'w state \<Rightarrow> 'w state" where
  "append_message m s = s\<lparr>message_history := message_history s @ [m]\<rparr>"

definition print :: "event list \<Rightarrow> 'w state \<Rightarrow> 'w state" where
  "print es s = s\<lparr>console := console s @ es\<rparr>"

text \<open>
  One call of \<^verbatim>\<open>client.chat.completions.create\<close> either returns a response, of which the
  programs read the text \<^verbatim>\<open>response.choices[0].message.content\<close>, or raises an exception
  \<open>e\<close>, of which \<open>Fail\<close> keeps the HTTP status with which the service refused the call, if
  it answered at all (429 is its "too many requests"), and the text \<^verbatim>\<open>str(e)\<close>, the only
  part of \<open>e\<close> the programs read.  The service's behaviour during a run is the list of the
  outcomes of the successive calls.  A run that has used up the list is still waiting
  for the service: its result is \<open>None\<close>.
\<close>

text \<open>
  Assumptions of the model: the text of a response is a string; \<^verbatim>\<open>print\<close> does not fail;
  nothing interrupts the program from outside (\<^verbatim>\<open>KeyboardInterrupt\<close> and \<^verbatim>\<open>SystemExit\<close> are
  not subclasses of \<^verbatim>\<open>Exception\<close> and are not modelled).
\<close>

datatype llm_result = Reply string | Fail "nat option" string

text \<open>
  How one pass through the body of \<^verbatim>\<open>while True\<close> ends: \<^verbatim>\<open>continue\<close> (or the end of the
  body), \<^verbatim>\<open>break\<close>, or an exception that nothing catches.
\<close>

datatype control = Continue | Break | Raise exn

text \<open>
  \<^verbatim>\<open>tools[tool_name]\<close>: a list or a dictionary cannot be hashed (\<^verbatim>\<open>TypeError\<close>); any other
  value that is not a registered name is a missing key.
\<close>

definition lookup_tool :: "(string \<rightharpoonup> 'w tool) \<Rightarrow> json \<Rightarrow> exn + 'w tool" where
  "lookup_tool tools tool_name =
     (case tool_name of
        JString n \<Rightarrow> (case tools n of None \<Rightarrow> Inl (KeyError tool_name) | Some f \<Rightarrow> Inr f)
      | JArray _ \<Rightarrow> Inl (TypeError tool_name)
      | JObject _ \<Rightarrow> Inl (TypeError tool_name)
      | _ \<Rightarrow> Inl (KeyError tool_name))"

definition observation :: "json \<Rightarrow> string \<Rightarrow> json" where
  "observation tool_name result =
     JObject [(''step'', JString ''OBSERVE''), (''tool'', tool_name), (''output'', JString result)]"

section \<open>app.py: the weather agent\<close>

text \<open>
  The body of the loop of \<^verbatim>\<open>run_agent\<close> from the reply on (lines 102 to 156): strip the
  text, append it as the assistant's message, decode it, and act on the step.
\<close>

definition app_step :: "'w env \<Rightarrow> string \<Rightarrow> 'w state \<Rightarrow> control \<times> 'w state" where
  "app_step E reply s =
     (let raw = strip reply;
          s1 = append_message \<lparr>role = Assistant, content = raw\<rparr> s
      in case json_loads E raw of
           Inl _ \<Rightarrow> (Continue, print [InvalidJsonNotice, RawNotice raw] s1)
         | Inr step \<Rightarrow>
        (case step of
           JObject d \<Rightarrow>
             (let step_type = dict_get d ''step'' in
              if step_type = JString ''PLAN'' then
                (Continue, print [PlanNotice (dict_get d ''content'')] s1)
              else if step_type = JString ''TOOL'' then
                (let tool_name = dict_get d ''tool'';
                     tool_input = dict_get d ''input'';
                     s2 = print [ToolCallNotice tool_name tool_input] s1
                 in case lookup_tool (app_tools E) tool_name of
                      Inl e \<Rightarrow> (Raise e, s2)
                    | Inr f \<Rightarrow>
                   (case f tool_input (world s2) of
                      (Inl e, w') \<Rightarrow> (Raise e, s2\<lparr>world := w'\<rparr>)
                    | (Inr result, w') \<Rightarrow>
                        (Continue,
                         append_message
                           \<lparr>role = Developer,
                            content = json_dumps E (observation tool_name result)\<rparr>
                           (print [ToolResultNotice result] (s2\<lparr>world := w'\<rparr>)))))
              else if step_type = JString ''OUTPUT'' then
                (Break, print [AnswerNotice (dict_get d ''content'')] s1)
              else (Continue, s1))
         | _ \<Rightarrow> (Raise (AttributeError step ''get''), s1)))"

text \<open>
  The loop: each pass makes one call to the model service (lines 95 to 100), and an
  exception of the call is not caught.  The result is the value \<^verbatim>\<open>run_agent\<close> returns
  (always \<^verbatim>\<open>None\<close>, after \<^verbatim>\<open>break\<close>) or the exception that ends it, the state, and the
  outcomes of the service not yet used.
\<close>

fun app_loop ::
  "'w env \<Rightarrow> llm_result list \<Rightarrow> 'w state \<Rightarrow> (exn + json) option \<times> 'w state \<times> llm_result list"
where
  "app_loop E [] s = (None, s, [])"
| "app_loop E (Fail status m # rest) s = (Some (Inl (External m)), s, rest)"
| "app_loop E (Reply r # rest) s =
     (case app_step E r s of
        (Continue, s') \<Rightarrow> app_loop E rest s'
      | (Break, s') \<Rightarrow> (Some (Inr JNull), s', rest)
      | (Raise e, s') \<Rightarrow> (Some (Inl e), s', rest))"

definition app_run_agent ::
  "'w env \<Rightarrow> string \<Rightarrow> llm_result list \<Rightarrow> 'w state \<Rightarrow>
     (exn + json) option \<times> 'w state \<times> llm_result list"
where
  "app_run_agent E user_query service s =
     app_loop E service (append_message \<lparr>role = User, content = user_query\<rparr> s)"

section \<open>cli.py: the coding agent\<close>

text \<open>
  \<^verbatim>\<open>safe_llm_call\<close> (lines 138 to 152): an exception whose text contains \<^verbatim>\<open>429\<close> is
  answered by a notice, a sleep of five seconds and another call; any other exception
  is raised again.
\<close>

fun safe_llm_call ::
  "llm_result list \<Rightarrow> 'w state \<Rightarrow> (exn + string) option \<times> 'w state \<times> llm_result list"
where
  "safe_llm_call [] s = (None, s, [])"
| "safe_llm_call (Reply r # rest) s = (Some (Inr r), s, rest)"
| "safe_llm_call (Fail status m # rest) s =
     (if sublist ''429'' m
      then safe_llm_call rest (print [RateLimitNotice, Sleep 5] s)
      else (Some (Inl (External m)), s, rest))"

text \<open>The body of the loop of \<^verbatim>\<open>run_agent\<close> from the reply on (lines 166 to 217).\<close>

definition cli_step :: "'w env \<Rightarrow> string \<Rightarrow> 'w state \<Rightarrow> control \<times> 'w state" where
  "cli_step E reply s =
     (let raw = strip reply;
          s1 = append_message \<lparr>role = Assistant, content = raw\<rparr> s
      in case json_loads E raw of
           Inl _ \<Rightarrow> (Continue, print [InvalidJsonNotice] s1)
         | Inr step \<Rightarrow>
        (case step of
           JObject d \<Rightarrow>
             (let step_type = dict_get d ''step'' in
              if step_type = JString ''PLAN'' then
                (Continue, print [PlanNotice (dict_get d ''content'')] s1)
              else if step_type = JString ''TOOL'' then
                (let tool_name = dict_get d ''tool'';
                     tool_input = dict_get d ''input'';
                     s2 = print [ToolNameNotice tool_name] s1
                 in case lookup_tool (cli_tools E) tool_name of
                      Inl e \<Rightarrow> (Raise e, s2)
                    | Inr f \<Rightarrow>
                   (case f tool_input (world s2) of
                      (Inl e, w') \<Rightarrow> (Raise e, s2\<lparr>world := w'\<rparr>)
                    | (Inr result, w') \<Rightarrow>
                        (Continue,
                         append_message
                           \<lparr>role = Developer,
                            content = json_dumps E (observation tool_name result)\<rparr>
                           (print [ToolResultNotice (take 600 result)] (s2\<lparr>world := w'\<rparr>)))))
              else if step_type = JString ''OUTPUT'' then
                (Break, print [AnswerNotice (dict_get d ''content'')] s1)
              else (Continue, s1))
         | _ \<Rightarrow> (Raise (AttributeError step ''get''), s1)))"

function cli_loop ::
  "'w env \<Rightarrow> llm_result list \<Rightarrow> 'w state \<Rightarrow> (exn + json) option \<times> 'w state \<times> llm_result list"
where
  "cli_loop E service s =
     (case safe_llm_call service s of
        (None, s0, rest) \<Rightarrow> (None, s0, rest)
      | (Some (Inl e), s0, rest) \<Rightarrow> (Some (Inl e), s0, rest)
      | (Some (Inr r), s0, rest) \<Rightarrow>
          (case cli_step E r s0 of
             (Continue, s') \<Rightarrow> cli_loop E rest s'
           | (Break, s') \<Rightarrow> (Some (Inr JNull), s', rest)
           | (Raise e, s') \<Rightarrow> (Some (Inl e), s', rest)))"
  by pat_completeness auto
termination
proof -
  have shorter: "length rest < length service"
    if "(Some x, s', rest) = safe_llm_call service s" for service s x s' rest
    using that
    by (induction service s rule: safe_llm_call.induct) (auto split: if_splits)
  show ?thesis
    by (relation "measure (\<lambda>(E, service, s). length service)") (auto dest: shorter)
qed

declare cli_loop.simps [simp del]

definition cli_run_agent ::
  "'w env \<Rightarrow> string \<Rightarrow> llm_result list \<Rightarrow> 'w state \<Rightarrow>
     (exn + json) option \<times> 'w state \<times> llm_result list"
where
  "cli_run_agent E user_query service s =
     cli_loop E service (append_message \<lparr>role = User, content = user_query\<rparr> s)"

section \<open>Notions used in the statements\<close>

text \<open>What \<^verbatim>\<open>json.loads\<close> makes of a reply, after the \<^verbatim>\<open>strip\<close> of the loop.\<close>

definition decoded :: "'w env \<Rightarrow> string \<Rightarrow> string + json" where
  "decoded E reply = json_loads E (strip reply)"

text \<open>The message the loop appends for a reply.\<close>

definition assistant :: "string \<Rightarrow> message" where
  "assistant reply = \<lparr>role = Assistant, content = strip reply\<rparr>"

text \<open>The value of \<^verbatim>\<open>step.get("step")\<close> when the reply decodes to an object.\<close>

definition step_type :: "'w env \<Rightarrow> string \<Rightarrow> json option" where
  "step_type E reply =
     (case decoded E reply of
        Inr (JObject d) \<Rightarrow> Some (dict_get d ''step'')
      | _ \<Rightarrow> None)"

text \<open>The value of \<^verbatim>\<open>step.get(k)\<close>, and whether the decoded object has the key at all.\<close>

definition step_field :: "'w env \<Rightarrow> string \<Rightarrow> string \<Rightarrow> json" where
  "step_field E reply k =
     (case decoded E reply of
        Inr (JObject d) \<Rightarrow> dict_get d k
      | _ \<Rightarrow> JNull)"


definition is_output :: "'w env \<Rightarrow> llm_result \<Rightarrow> bool" where
  "is_output E x =
     (case x of Reply r \<Rightarrow> step_type E r = Some (JString ''OUTPUT'') | Fail _ _ \<Rightarrow> False)"

text \<open>The memory starts with a system message and holds no other one.\<close>

definition one_system_message :: "message list \<Rightarrow> bool" where
  "one_system_message h =
     (case h of
        [] \<Rightarrow> False
      | m # ms \<Rightarrow> role m = System \<and> list_all (\<lambda>m. role m \<noteq> System) ms)"

text \<open>
  The memory \<open>h'\<close> is the memory \<open>h\<close> with messages appended at its end, none of them a
  system message.
\<close>

definition appended_only :: "message list \<Rightarrow> message list \<Rightarrow> bool" where
  "appended_only h h' =
     (prefix h h' \<and> list_all (\<lambda>m. role m \<noteq> System) (drop (length h) h'))"

text \<open>
  A failure by which the service signals rate limiting, and a failure whose text shows
  the digits that \<^verbatim>\<open>safe_llm_call\<close> looks for.
\<close>

definition signals_rate_limit :: "llm_result \<Rightarrow> bool" where
  "signals_rate_limit x =
     (case x of Reply _ \<Rightarrow> False | Fail status _ \<Rightarrow> status = Some 429)"

definition text_has_429 :: "llm_result \<Rightarrow> bool" where
  "text_has_429 x = (case x of Reply _ \<Rightarrow> False | Fail _ m \<Rightarrow> sublist ''429'' m)"

text \<open>The console after \<open>n\<close> rounds of rate limiting.\<close>

definition backoffs :: "nat \<Rightarrow> event list" where
  "backoffs n = concat (replicate n [RateLimitNotice, Sleep 5])"

section \<open>An environment to run the programs in\<close>

text \<open>
  A small world for concrete runs: the state of the world counts the effects so far, the
  codec knows a handful of texts, the weather service answers, the shell prints a line,
  and the file system accepts text and has no file to read.
\<close>

definition example_loads :: "string \<Rightarrow> string + json" where
  \<open>example_loads raw =
     (if raw = ''{"step": "PLAN", "content": "look up the weather"}'' then
        Inr (JObject [(''step'', JString ''PLAN''), (''content'', JString ''look up the weather'')])
      else if raw = ''{"step": "TOOL", "tool": "get_weather", "input": "Paris"}'' then
        Inr (JObject [(''step'', JString ''TOOL''), (''tool'', JString ''get_weather''),
                      (''input'', JString ''Paris'')])
      else if raw = ''{"step": "TOOL", "tool": "get_weather"}'' then
        Inr (JObject [(''step'', JString ''TOOL''), (''tool'', JString ''get_weather'')])
      else if raw = ''{"step": "TOOL", "tool": "read_file"}'' then
        Inr (JObject [(''step'', JString ''TOOL''), (''tool'', JString ''read_file'')])
      else if raw = ''{"step": "TOOL", "tool": "run_command", "input": "dir"}'' then
        Inr (JObject [(''step'', JString ''TOOL''), (''tool'', JString ''run_command''),
                      (''input'', JString ''dir'')])
      else if raw = ''{"step": "TOOL", "tool": "delete_everything", "input": "x"}'' then
        Inr (JObject [(''step'', JString ''TOOL''), (''tool'', JString ''delete_everything''),
                      (''input'', JString ''x'')])
      else if raw = ''{"step": "OUTPUT", "content": "It is sunny"}'' then
        Inr (JObject [(''step'', JString ''OUTPUT''), (''content'', JString ''It is sunny'')])
      else if raw = ''{"step": "THINK", "content": "hm"}'' then
        Inr (JObject [(''step'', JString ''THINK''), (''content'', JString ''hm'')])
      else if raw = ''{"filename": "a.py", "content": "x = 1"}'' then
        Inr (JObject [(''filename'', JString ''a.py''), (''content'', JString ''x = 1'')])
      else if raw = ''[]'' then Inr (JArray [])
      else Inl ''Expecting value'')\<close>

definition example_dumps :: "json \<Rightarrow> string" where
  \<open>example_dumps v =
     (case v of
        JObject [(_, JString step), (_, JString tool), (_, JString output)] \<Rightarrow>
          ''{"step": "'' @ step @ ''", "tool": "'' @ tool @ ''", "output": "'' @ output @ ''"}''
      | _ \<Rightarrow> ''null'')\<close>

definition example_env :: "nat env" where
  "example_env =
     \<lparr>json_loads = example_loads,
      json_dumps = example_dumps,
      exn_text = (\<lambda>e. ''bad operand''),
      requests_get = (\<lambda>url w. (Inr \<lparr>status_code = 200, resp_text = ''Sunny +21C''\<rparr>, Suc w)),
      subprocess_run =
        (\<lambda>cmd w. case cmd of
                    JString c \<Rightarrow> (Inr \<lparr>stdout = ''a.py '', stderr = []\<rparr>, Suc w)
                  | _ \<Rightarrow> (Inl (TypeError cmd), w)),
      os_path_dirname = (\<lambda>p. []),
      os_makedirs = (\<lambda>p w. (Inr (), w)),
      open_write =
        (\<lambda>p c w. case c of JString t \<Rightarrow> (Inr (), Suc w) | _ \<Rightarrow> (Inl (TypeError c), Suc w)),
      open_read =
        (\<lambda>p w. case p of
                  JString n \<Rightarrow> (Inl (External ''No such file or directory''), w)
                | _ \<Rightarrow> (Inl (TypeError p), w))\<rparr>"

definition example_start :: "nat state" where
  "example_start = initial_state ''You are an agent.'' 0"

section \<open>Tools never raise\<close>

lemma get_weather_returns: "\<exists>s w'. get_weather E x w = (Inr s, w')"
  by (simp add: get_weather_def split: prod.split sum.split)

lemma run_command_returns: "\<exists>s w'. run_command E x w = (Inr s, w')"
  by (simp add: run_command_def split: prod.split sum.split)

lemma write_file_returns: "\<exists>s w'. write_file E x w = (Inr s, w')"
  by (simp add: write_file_def split: prod.split sum.split)

lemma read_file_returns: "\<exists>s w'. read_file E x w = (Inr s, w')"
  by (simp add: read_file_def split: prod.split sum.split)

lemma app_tools_return:
  "app_tools E name = Some f \<Longrightarrow> \<exists>s w'. f x w = (Inr s, w')"
  by (auto simp: app_tools_def get_weather_returns split: if_splits)

lemma cli_tools_return:
  "cli_tools E name = Some f \<Longrightarrow> \<exists>s w'. f x w = (Inr s, w')"
  by (auto simp: cli_tools_def run_command_returns write_file_returns read_file_returns
      split: if_splits)

section \<open>Facts about the building blocks\<close>

lemma lookup_tool_Inr:
  "lookup_tool tools v = Inr f \<longleftrightarrow> (\<exists>n. v = JString n \<and> tools n = Some f)"
  by (cases v) (auto simp: lookup_tool_def split: option.splits)

lemma lookup_tool_absent:
  "v \<notin> JString ` dom tools \<Longrightarrow>
   lookup_tool tools v = Inl (KeyError v) \<or> lookup_tool tools v = Inl (TypeError v)"
  by (cases v) (auto simp: lookup_tool_def split: option.splits)

lemma step_type_SomeD:
  "step_type E r = Some t \<Longrightarrow> \<exists>d. decoded E r = Inr (JObject d) \<and> dict_get d ''step'' = t"
  by (auto simp: step_type_def split: sum.splits json.splits)

lemma step_field_decoded: "decoded E r = Inr (JObject d) \<Longrightarrow> step_field E r k = dict_get d k"
  by (simp add: step_field_def)

lemma print_nil: "print [] s = s"
  by (simp add: print_def)

lemma print_print: "print es (print ds s) = print (ds @ es) s"
  by (simp add: print_def)

subsection \<open>One pass of the loop, case by case\<close>

lemma app_step_invalid:
  "decoded E r = Inl m \<Longrightarrow>
   app_step E r s =
     (Continue, print [InvalidJsonNotice, RawNotice (strip r)] (append_message (assistant r) s))"
  by (simp add: app_step_def decoded_def assistant_def Let_def)

lemma app_step_non_object:
  "decoded E r = Inr v \<Longrightarrow> \<forall>d. v \<noteq> JObject d \<Longrightarrow>
   app_step E r s = (Raise (AttributeError v ''get''), append_message (assistant r) s)"
  by (cases v) (simp_all add: app_step_def decoded_def assistant_def Let_def)

lemma app_step_plan:
  "step_type E r = Some (JString ''PLAN'') \<Longrightarrow>
   app_step E r s =
     (Continue, print [PlanNotice (step_field E r ''content'')] (append_message (assistant r) s))"
  by (auto dest!: step_type_SomeD simp: step_field_decoded)
     (simp add: app_step_def decoded_def assistant_def Let_def)

lemma app_step_output:
  "step_type E r = Some (JString ''OUTPUT'') \<Longrightarrow>
   app_step E r s =
     (Break, print [AnswerNotice (step_field E r ''content'')] (append_message (assistant r) s))"
  by (auto dest!: step_type_SomeD simp: step_field_decoded)
     (simp add: app_step_def decoded_def assistant_def Let_def)

lemma app_step_other:
  "step_type E r = Some t \<Longrightarrow> t \<notin> {JString ''PLAN'', JString ''TOOL'', JString ''OUTPUT''} \<Longrightarrow>
   app_step E r s = (Continue, append_message (assistant r) s)"
  by (auto dest!: step_type_SomeD simp: step_field_decoded)
     (simp add: app_step_def decoded_def assistant_def Let_def)

lemma app_step_tool_missing:
  "step_type E r = Some (JString ''TOOL'') \<Longrightarrow>
   lookup_tool (app_tools E) (step_field E r ''tool'') = Inl e \<Longrightarrow>
   app_step E r s =
     (Raise e,
      print [ToolCallNotice (step_field E r ''tool'') (step_field E r ''input'')]
        (append_message (assistant r) s))"
  by (auto dest!: step_type_SomeD simp: step_field_decoded)
     (simp add: app_step_def decoded_def assistant_def Let_def)

lemma app_step_tool:
  "step_type E r = Some (JString ''TOOL'') \<Longrightarrow>
   step_field E r ''tool'' = JString n \<Longrightarrow> app_tools E n = Some f \<Longrightarrow>
   f (step_field E r ''input'') (world s) = (Inr result, w') \<Longrightarrow>
   app_step E r s =
     (Continue,
      append_message
        \<lparr>role = Developer, content = json_dumps E (observation (JString n) result)\<rparr>
        (print [ToolCallNotice (JString n) (step_field E r ''input''), ToolResultNotice result]
           (append_message (assistant r) s)\<lparr>world := w'\<rparr>))"
  by (auto dest!: step_type_SomeD simp: step_field_decoded)
     (simp add: app_step_def decoded_def assistant_def Let_def print_def append_message_def
        lookup_tool_def)

lemma cli_step_invalid:
  "decoded E r = Inl m \<Longrightarrow>
   cli_step E r s = (Continue, print [InvalidJsonNotice] (append_message (assistant r) s))"
  by (simp add: cli_step_def decoded_def assistant_def Let_def)

lemma cli_step_non_object:
  "decoded E r = Inr v \<Longrightarrow> \<forall>d. v \<noteq> JObject d \<Longrightarrow>
   cli_step E r s = (Raise (AttributeError v ''get''), append_message (assistant r) s)"
  by (cases v) (simp_all add: cli_step_def decoded_def assistant_def Let_def)

lemma cli_step_plan:
  "step_type E r = Some (JString ''PLAN'') \<Longrightarrow>
   cli_step E r s =
     (Continue, print [PlanNotice (step_field E r ''content'')] (append_message (assistant r) s))"
  by (auto dest!: step_type_SomeD simp: step_field_decoded)
     (simp add: cli_step_def decoded_def assistant_def Let_def)

lemma cli_step_output:
  "step_type E r = Some (JString ''OUTPUT'') \<Longrightarrow>
   cli_step E r s =
     (Break, print [AnswerNotice (step_field E r ''content'')] (append_message (assistant r) s))"
  by (auto dest!: step_type_SomeD simp: step_field_decoded)
     (simp add: cli_step_def decoded_def assistant_def Let_def)

lemma cli_step_other:
  "step_type E r = Some t \<Longrightarrow> t \<notin> {JString ''PLAN'', JString ''TOOL'', JString ''OUTPUT''} \<Longrightarrow>
   cli_step E r s = (Continue, append_message (assistant r) s)"
  by (auto dest!: step_type_SomeD simp: step_field_decoded)
     (simp add: cli_step_def decoded_def assistant_def Let_def)

lemma cli_step_tool_missing:
  "step_type E r = Some (JString ''TOOL'') \<Longrightarrow>
   lookup_tool (cli_tools E) (step_field E r ''tool'') = Inl e \<Longrightarrow>
   cli_step E r s =
     (Raise e, print [ToolNameNotice (step_field E r ''tool'')] (append_message (assistant r) s))"
  by (auto dest!: step_type_SomeD simp: step_field_decoded)
     (simp add: cli_step_def decoded_def assistant_def Let_def)

lemma cli_step_tool:
  "step_type E r = Some (JString ''TOOL'') \<Longrightarrow>
   step_field E r ''tool'' = JString n \<Longrightarrow> cli_tools E n = Some f \<Longrightarrow>
   f (step_field E r ''input'') (world s) = (Inr result, w') \<Longrightarrow>
   cli_step E r s =
     (Continue,
      append_message
        \<lparr>role = Developer, content = json_dumps E (observation (JString n) result)\<rparr>
        (print [ToolNameNotice (JString n), ToolResultNotice (take 600 result)]
           (append_message (assistant r) s)\<lparr>world := w'\<rparr>))"
  by (auto dest!: step_type_SomeD simp: step_field_decoded)
     (simp add: cli_step_def decoded_def assistant_def Let_def print_def append_message_def
        lookup_tool_def)

lemma cli_loop_reply:
  "cli_loop E (Reply r # rest) s =
     (case cli_step E r s of
        (Continue, s') \<Rightarrow> cli_loop E rest s'
      | (Break, s') \<Rightarrow> (Some (Inr JNull), s', rest)
      | (Raise e, s') \<Rightarrow> (Some (Inl e), s', rest))"
  by (subst cli_loop.simps) simp

lemma app_loop_reply_continue:
  "app_step E r s = (Continue, s') \<Longrightarrow> app_loop E (Reply r # rest) s = app_loop E rest s'"
  by simp

lemma cli_loop_reply_continue:
  "cli_step E r s = (Continue, s') \<Longrightarrow> cli_loop E (Reply r # rest) s = cli_loop E rest s'"
  by (simp add: cli_loop_reply)

lemma backoffs_Suc: "backoffs (Suc n) = [RateLimitNotice, Sleep 5] @ backoffs n"
  by (simp add: backoffs_def)

lemma safe_llm_call_retries:
  "list_all text_has_429 xs \<Longrightarrow>
   safe_llm_call (xs @ service) s = safe_llm_call service (print (backoffs (length xs)) s)"
proof (induction xs arbitrary: s)
  case Nil
  then show ?case by (simp add: backoffs_def print_nil)
next
  case (Cons x xs)
  then show ?case
    by (cases x) (simp_all add: text_has_429_def backoffs_Suc print_print)
qed

subsection \<open>The loop returns only after an \<open>OUTPUT\<close> step\<close>

lemma app_step_Break_iff:
  "fst (app_step E r s) = Break \<longleftrightarrow> step_type E r = Some (JString ''OUTPUT'')"
  by (auto simp: app_step_def step_type_def decoded_def Let_def
      split: sum.splits json.splits prod.splits)

lemma cli_step_Break_iff:
  "fst (cli_step E r s) = Break \<longleftrightarrow> step_type E r = Some (JString ''OUTPUT'')"
  by (auto simp: cli_step_def step_type_def decoded_def Let_def
      split: sum.splits json.splits prod.splits)

lemma app_loop_returns_only_after_output:
  "app_loop E service s = (Some (Inr v), s', rest) \<Longrightarrow>
   \<exists>pre r. service = pre @ Reply r # rest \<and> step_type E r = Some (JString ''OUTPUT'') \<and>
           list_all (\<lambda>x. \<not> is_output E x) pre \<and> v = JNull"
proof (induction service arbitrary: s)
  case Nil
  then show ?case by simp
next
  case (Cons x service)
  show ?case
  proof (cases x)
    case (Fail status m)
    with Cons.prems show ?thesis by simp
  next
    case (Reply r)
    obtain c s1 where step: "app_step E r s = (c, s1)"
      by (cases "app_step E r s")
    show ?thesis
    proof (cases c)
      case Continue
      with Cons.prems Reply step have "app_loop E service s1 = (Some (Inr v), s', rest)"
        by simp
      then obtain pre r' where
        pre: "service = pre @ Reply r' # rest" "step_type E r' = Some (JString ''OUTPUT'')"
          "list_all (\<lambda>x. \<not> is_output E x) pre" "v = JNull"
        using Cons.IH by blast
      have "\<not> is_output E (Reply r)"
        using app_step_Break_iff [of E r s] step Continue by (simp add: is_output_def)
      with pre Reply have
        "x # service = (Reply r # pre) @ Reply r' # rest \<and>
         step_type E r' = Some (JString ''OUTPUT'') \<and>
         list_all (\<lambda>x. \<not> is_output E x) (Reply r # pre) \<and> v = JNull"
        by simp
      then show ?thesis by blast
    next
      case Break
      with Cons.prems Reply step have "rest = service" "v = JNull"
        by simp_all
      moreover have "step_type E r = Some (JString ''OUTPUT'')"
        using app_step_Break_iff [of E r s] step Break by simp
      ultimately have
        "x # service = [] @ Reply r # rest \<and> step_type E r = Some (JString ''OUTPUT'') \<and>
         list_all (\<lambda>x. \<not> is_output E x) [] \<and> v = JNull"
        using Reply by simp
      then show ?thesis by blast
    next
      case (Raise e)
      with Cons.prems Reply step show ?thesis by simp
    qed
  qed
qed

lemma safe_llm_call_reply_shape:
  "safe_llm_call service s = (Some (Inr r), s0, rest) \<Longrightarrow>
   \<exists>xs. service = xs @ Reply r # rest \<and> list_all text_has_429 xs"
proof (induction service s rule: safe_llm_call.induct)
  case (1 s)
  then show ?case by simp
next
  case (2 r' rest' s)
  then have "Reply r' # rest' = [] @ Reply r # rest \<and> list_all text_has_429 []"
    by simp
  then show ?case by blast
next
  case (3 status m rest' s)
  show ?case
  proof (cases "sublist ''429'' m")
    case True
    with 3 obtain xs where "rest' = xs @ Reply r # rest" "list_all text_has_429 xs"
      by auto
    with True have
      "Fail status m # rest' = (Fail status m # xs) @ Reply r # rest \<and>
       list_all text_has_429 (Fail status m # xs)"
      by (simp add: text_has_429_def)
    then show ?thesis by blast
  next
    case False
    with 3 show ?thesis by simp
  qed
qed

lemma cli_loop_returns_only_after_output:
  "cli_loop E service s = (Some (Inr v), s', rest) \<Longrightarrow>
   \<exists>pre r. service = pre @ Reply r # rest \<and> step_type E r = Some (JString ''OUTPUT'') \<and>
           list_all (\<lambda>x. \<not> is_output E x) pre \<and> v = JNull"
proof (induction E service s rule: cli_loop.induct)
  case (1 E service s)
  obtain a s0 rest0 where call: "safe_llm_call service s = (a, s0, rest0)"
    by (cases "safe_llm_call service s")
  from "1.prems" call obtain r where a: "a = Some (Inr r)"
    by (subst (asm) cli_loop.simps) (auto split: option.splits sum.splits)
  obtain xs where ms: "service = xs @ Reply r # rest0" "list_all text_has_429 xs"
    using safe_llm_call_reply_shape call a by blast
  have quiet: "list_all (\<lambda>x. \<not> is_output E x) xs"
    using ms(2)
    by (auto simp: list_all_iff is_output_def text_has_429_def split: llm_result.splits)
  obtain c s1 where step: "cli_step E r s0 = (c, s1)"
    by (cases "cli_step E r s0")
  show ?case
  proof (cases c)
    case Continue
    have "cli_loop E rest0 s1 = (Some (Inr v), s', rest)"
      using "1.prems" call a step Continue by (subst (asm) cli_loop.simps) simp
    then obtain pre r' where
      pre: "rest0 = pre @ Reply r' # rest" "step_type E r' = Some (JString ''OUTPUT'')"
        "list_all (\<lambda>x. \<not> is_output E x) pre" "v = JNull"
      using "1.IH" [of a "(s0, rest0)" "Inr r" r s0 rest0 c s1] call a step Continue
      by auto
    have "\<not> is_output E (Reply r)"
      using cli_step_Break_iff [of E r s0] step Continue by (simp add: is_output_def)
    with pre ms quiet have
      "service = (xs @ Reply r # pre) @ Reply r' # rest \<and>
       step_type E r' = Some (JString ''OUTPUT'') \<and>
       list_all (\<lambda>x. \<not> is_output E x) (xs @ Reply r # pre) \<and> v = JNull"
      by simp
    then show ?thesis by blast
  next
    case Break
    have "rest = rest0" "v = JNull"
      using "1.prems" call a step Break by (subst (asm) cli_loop.simps, simp)+
    moreover have "step_type E r = Some (JString ''OUTPUT'')"
      using cli_step_Break_iff [of E r s0] step Break by simp
    ultimately have
      "service = xs @ Reply r # rest \<and> step_type E r = Some (JString ''OUTPUT'') \<and>
       list_all (\<lambda>x. \<not> is_output E x) (xs) \<and> v = JNull"
      using ms quiet by simp
    then show ?thesis by blast
  next
    case (Raise e)
    with "1.prems" call a step show ?thesis
      by (subst (asm) cli_loop.simps) simp
  qed
qed

subsection \<open>The memory only grows\<close>

lemma appended_only_append:
  "list_all (\<lambda>m. role m \<noteq> System) added \<Longrightarrow> appended_only h (h @ added)"
  by (simp add: appended_only_def)

lemma appended_only_refl: "appended_only h h"
  by (simp add: appended_only_def)

lemma appended_only_trans:
  "appended_only h h' \<Longrightarrow> appended_only h' h'' \<Longrightarrow> appended_only h h''"
  by (auto simp: appended_only_def prefix_def)

lemma appended_only_length: "appended_only h h' \<Longrightarrow> length h \<le> length h'"
  by (auto simp: appended_only_def prefix_def)

lemma one_system_message_appended:
  "one_system_message h \<Longrightarrow> appended_only h h' \<Longrightarrow> one_system_message h'"
  by (auto simp: one_system_message_def appended_only_def prefix_def split: list.splits)

lemma app_step_appended:
  "appended_only (message_history s) (message_history (snd (app_step E r s)))"
proof -
  have "\<exists>added. message_history (snd (app_step E r s)) = message_history s @ added \<and>
          list_all (\<lambda>m. role m \<noteq> System) added"
    by (auto simp: app_step_def Let_def append_message_def print_def
        split: sum.splits json.splits prod.splits)
  then show ?thesis
    using appended_only_append by metis
qed

lemma cli_step_appended:
  "appended_only (message_history s) (message_history (snd (cli_step E r s)))"
proof -
  have "\<exists>added. message_history (snd (cli_step E r s)) = message_history s @ added \<and>
          list_all (\<lambda>m. role m \<noteq> System) added"
    by (auto simp: cli_step_def Let_def append_message_def print_def
        split: sum.splits json.splits prod.splits)
  then show ?thesis
    using appended_only_append by metis
qed

lemma safe_llm_call_history:
  "message_history (fst (snd (safe_llm_call service s))) = message_history s"
  by (induction service s rule: safe_llm_call.induct) (simp_all add: print_def)

lemma app_loop_appended:
  "appended_only (message_history s) (message_history (fst (snd (app_loop E service s))))"
proof (induction service arbitrary: s)
  case Nil
  show ?case by (simp add: appended_only_refl)
next
  case (Cons x service)
  show ?case
  proof (cases x)
    case (Fail status m)
    then show ?thesis by (simp add: appended_only_refl)
  next
    case (Reply r)
    obtain c s1 where step: "app_step E r s = (c, s1)"
      by (cases "app_step E r s")
    have one: "appended_only (message_history s) (message_history s1)"
      using app_step_appended [of s E r] step by simp
    show ?thesis
    proof (cases c)
      case Continue
      with Reply step one Cons.IH [of s1] show ?thesis
        by (auto intro: appended_only_trans)
    qed (use Reply step one in simp_all)
  qed
qed

lemma cli_loop_appended:
  "appended_only (message_history s) (message_history (fst (snd (cli_loop E service s))))"
proof (induction E service s rule: cli_loop.induct)
  case (1 E service s)
  obtain a s0 rest0 where call: "safe_llm_call service s = (a, s0, rest0)"
    by (cases "safe_llm_call service s")
  have same: "message_history s0 = message_history s"
    using safe_llm_call_history [of service s] call by simp
  show ?case
  proof (cases a)
    case None
    with call same show ?thesis
      by (subst cli_loop.simps) (simp add: appended_only_refl)
  next
    case (Some x)
    show ?thesis
    proof (cases x)
      case (Inl e)
      with call same Some show ?thesis
        by (subst cli_loop.simps) (simp add: appended_only_refl)
    next
      case (Inr r)
      obtain c s1 where step: "cli_step E r s0 = (c, s1)"
        by (cases "cli_step E r s0")
      have one: "appended_only (message_history s) (message_history s1)"
        using cli_step_appended [of s0 E r] step same by simp
      show ?thesis
      proof (cases c)
        case Continue
        have "appended_only (message_history s1)
                (message_history (fst (snd (cli_loop E rest0 s1))))"
          using "1.IH" [of a "(s0, rest0)" x r s0 rest0 c s1] call Some Inr step Continue
          by simp
        with one have "appended_only (message_history s)
                (message_history (fst (snd (cli_loop E rest0 s1))))"
          by (rule appended_only_trans)
        with call Some Inr step Continue show ?thesis
          by (subst cli_loop.simps) simp
      next
        case Break
        with call Some Inr step one show ?thesis
          by (subst cli_loop.simps) simp
      next
        case (Raise e)
        with call Some Inr step one show ?thesis
          by (subst cli_loop.simps) simp
      qed
    qed
  qed
qed

subsection \<open>A run on a longer list of outcomes extends the run on a shorter one\<close>

lemma app_loop_append:
  "app_loop E (xs @ ys) s =
     (case app_loop E xs s of
        (None, s1, _) \<Rightarrow> app_loop E ys s1
      | (Some v, s1, rest) \<Rightarrow> (Some v, s1, rest @ ys))"
proof (induction xs arbitrary: s)
  case Nil
  show ?case by simp
next
  case (Cons x xs)
  show ?case
  proof (cases x)
    case (Fail status m)
    then show ?thesis by simp
  next
    case (Reply r)
    obtain c s1 where step: "app_step E r s = (c, s1)"
      by (cases "app_step E r s")
    show ?thesis
      using Reply step Cons.IH [of s1] by (cases c) simp_all
  qed
qed

lemma safe_llm_call_append:
  "safe_llm_call (xs @ ys) s =
     (case safe_llm_call xs s of
        (None, s1, _) \<Rightarrow> safe_llm_call ys s1
      | (Some v, s1, rest) \<Rightarrow> (Some v, s1, rest @ ys))"
  by (induction xs s rule: safe_llm_call.induct) simp_all

lemma cli_loop_append:
  "cli_loop E (xs @ ys) s =
     (case cli_loop E xs s of
        (None, s1, _) \<Rightarrow> cli_loop E ys s1
      | (Some v, s1, rest) \<Rightarrow> (Some v, s1, rest @ ys))"
proof (induction E xs s rule: cli_loop.induct)
  case (1 E xs s)
  obtain a s0 rest0 where call: "safe_llm_call xs s = (a, s0, rest0)"
    by (cases "safe_llm_call xs s")
  show ?case
  proof (cases a)
    case None
    have left: "cli_loop E xs s = (None, s0, rest0)"
      using call None by (subst cli_loop.simps) simp
    have "safe_llm_call (xs @ ys) s = safe_llm_call ys s0"
      using call None by (simp add: safe_llm_call_append)
    then have "cli_loop E (xs @ ys) s = cli_loop E ys s0"
      by (subst cli_loop.simps, subst (2) cli_loop.simps) simp
    with left show ?thesis by simp
  next
    case (Some x)
    have call': "safe_llm_call (xs @ ys) s = (Some x, s0, rest0 @ ys)"
      using call Some by (simp add: safe_llm_call_append)
    show ?thesis
    proof (cases x)
      case (Inl e)
      have "cli_loop E xs s = (Some (Inl e), s0, rest0)"
        using call Some Inl by (subst cli_loop.simps) simp
      moreover have "cli_loop E (xs @ ys) s = (Some (Inl e), s0, rest0 @ ys)"
        using call' Inl by (subst cli_loop.simps) simp
      ultimately show ?thesis by simp
    next
      case (Inr r)
      obtain c s1 where step: "cli_step E r s0 = (c, s1)"
        by (cases "cli_step E r s0")
      have left: "cli_loop E xs s =
          (case c of Continue \<Rightarrow> cli_loop E rest0 s1
           | Break \<Rightarrow> (Some (Inr JNull), s1, rest0)
           | Raise e \<Rightarrow> (Some (Inl e), s1, rest0))"
        using call Some Inr step by (subst cli_loop.simps) simp
      have right: "cli_loop E (xs @ ys) s =
          (case c of Continue \<Rightarrow> cli_loop E (rest0 @ ys) s1
           | Break \<Rightarrow> (Some (Inr JNull), s1, rest0 @ ys)
           | Raise e \<Rightarrow> (Some (Inl e), s1, rest0 @ ys))"
        using call' Inr step by (subst cli_loop.simps) simp
      show ?thesis
      proof (cases c)
        case Continue
        have "cli_loop E (rest0 @ ys) s1 =
           (case cli_loop E rest0 s1 of
              (None, s1, _) \<Rightarrow> cli_loop E ys s1
            | (Some v, s1, rest) \<Rightarrow> (Some v, s1, rest @ ys))"
          using "1.IH" [of a "(s0, rest0)" x r s0 rest0 c s1] call Some Inr step Continue
          by simp
        with left right Continue show ?thesis by simp
      qed (use left right in simp_all)
    qed
  qed
qed

lemma app_loop_take:
  "appended_only (message_history (fst (snd (app_loop E (take k service) s))))
     (message_history (fst (snd (app_loop E service s))))"
proof -
  obtain a s1 rest where p: "app_loop E (take k service) s = (a, s1, rest)"
    by (cases "app_loop E (take k service) s")
  have "app_loop E (take k service @ drop k service) s =
     (case a of None \<Rightarrow> app_loop E (drop k service) s1
      | Some v \<Rightarrow> (Some v, s1, rest @ drop k service))"
    using p app_loop_append [of E "take k service" "drop k service" s]
    by (simp del: append_take_drop_id split: option.splits)
  then show ?thesis
    using p app_loop_appended [of s1 E "drop k service"]
    by (cases a) (simp_all add: appended_only_refl)
qed

lemma cli_loop_take:
  "appended_only (message_history (fst (snd (cli_loop E (take k service) s))))
     (message_history (fst (snd (cli_loop E service s))))"
proof -
  obtain a s1 rest where p: "cli_loop E (take k service) s = (a, s1, rest)"
    by (cases "cli_loop E (take k service) s")
  have "cli_loop E (take k service @ drop k service) s =
     (case a of None \<Rightarrow> cli_loop E (drop k service) s1
      | Some v \<Rightarrow> (Some v, s1, rest @ drop k service))"
    using p cli_loop_append [of E "take k service" "drop k service" s]
    by (simp del: append_take_drop_id split: option.splits)
  then show ?thesis
    using p cli_loop_appended [of s1 E "drop k service"]
    by (cases a) (simp_all add: appended_only_refl)
qed

subsection \<open>Concrete replies\<close>

lemma example_tool_reply:
  \<open>step_type example_env ''{"step": "TOOL", "tool": "get_weather", "input": "Paris"}''
     = Some (JString ''TOOL'')\<close>
  \<open>step_field example_env ''{"step": "TOOL", "tool": "get_weather", "input": "Paris"}'' ''tool''
     = JString ''get_weather''\<close>
  \<open>step_field example_env ''{"step": "TOOL", "tool": "get_weather", "input": "Paris"}'' ''input''
     = JString ''Paris''\<close>
  by code_simp+


lemma example_unknown_tool_reply:
  \<open>step_type example_env ''{"step": "TOOL", "tool": "delete_everything", "input": "x"}''
     = Some (JString ''TOOL'')\<close>
  \<open>step_field example_env ''{"step": "TOOL", "tool": "delete_everything", "input": "x"}'' ''tool''
     = JString ''delete_everything''\<close>
  \<open>step_field example_env ''{"step": "TOOL", "tool": "delete_everything", "input": "x"}'' ''input''
     = JString ''x''\<close>
  by code_simp+

lemma example_output_reply:
  \<open>step_type example_env ''{"step": "OUTPUT", "content": "It is sunny"}''
     = Some (JString ''OUTPUT'')\<close>
  \<open>step_field example_env ''{"step": "OUTPUT", "content": "It is sunny"}'' ''content''
     = JString ''It is sunny''\<close>
  by code_simp+

lemma example_think_reply:
  \<open>step_type example_env ''{"step": "THINK", "content": "hm"}'' = Some (JString ''THINK'')\<close>
  by code_simp

lemma example_plan_reply:
  \<open>step_type example_env ''{"step": "PLAN", "content": "look up the weather"}''
     = Some (JString ''PLAN'')\<close>
  by code_simp

lemma example_registries:
  "app_tools example_env ''get_weather'' = Some (get_weather example_env)"
  "cli_tools example_env ''read_file'' = Some (read_file example_env)"
  "JString ''delete_everything'' \<notin> JString ` dom (app_tools example_env)"
  "JString ''delete_everything'' \<notin> JString ` dom (cli_tools example_env)"
  by (auto simp: app_tools_def cli_tools_def)

lemma example_history: "message_history example_start = [\<lparr>role = System, content = ''You are an agent.''\<rparr>]"
  by (simp add: example_start_def initial_state_def)

section \<open>The claims\<close>

text \<open>
  C9.  Every registered tool, of either program, returns a string for every input value
  and every state of the world, and never raises: whenever the body of a tool raises,
  its handler turns the exception into the tool's error text (\<^verbatim>\<open>get_weather\<close>: the fixed
  text; \<^verbatim>\<open>run_command\<close>: the exception's text; \<^verbatim>\<open>write_file\<close> and \<^verbatim>\<open>read_file\<close>: the
  exception's text behind a prefix).
\<close>

theorem tools_never_raise:
  "(app_tools E name = Some f \<or> cli_tools E name = Some f \<longrightarrow>
      (\<exists>out w'. f x w = (Inr out, w')))
   \<and> (get_weather_body E x w = (Inl e, w1) \<longrightarrow>
        get_weather E x w = (Inr ''Weather API error'', w1))
   \<and> (run_command_body E x w = (Inl e, w1) \<longrightarrow>
        run_command E x w = (Inr (str_exn E e), w1))
   \<and> (write_file_body E x w = (Inl e, w1) \<longrightarrow>
        write_file E x w = (Inr (''Write error: '' @ str_exn E e), w1))
   \<and> (read_file_body E x w = (Inl e, w1) \<longrightarrow>
        read_file E x w = (Inr (''Read error: '' @ str_exn E e), w1))"
proof -
  have "\<exists>out w'. f x w = (Inr out, w')"
    if "app_tools E name = Some f \<or> cli_tools E name = Some f"
    using that app_tools_return [of E name f x w] cli_tools_return [of E name f x w] by blast
  then show ?thesis
    by (simp add: get_weather_def run_command_def write_file_def read_file_def)
qed

theorem tools_never_raise_witness:
  "write_file example_env (JString ''not json'') 0 = (Inr ''Write error: Expecting value'', 0)"
proof -
  have body: "write_file_body example_env (JString ''not json'') 0
                = (Inl (JSONDecodeError ''Expecting value''), 0)"
    by (simp add: write_file_body_def loads_value_def example_env_def example_loads_def)
  have "str_exn example_env (JSONDecodeError ''Expecting value'') = ''Expecting value''"
    by (simp add: str_exn_def)
  with body show ?thesis
    using tools_never_raise
      [of example_env "''write_file''" "write_file example_env" "JString ''not json''" 0
          "JSONDecodeError ''Expecting value''" 0]
    by simp
qed

text \<open>
  C7.  A reply that decodes to a \<open>TOOL\<close> step naming a registered tool makes the pass append
  exactly two messages to the memory: the assistant's reply and, after it, one message
  of role \<^verbatim>\<open>developer\<close> whose content is the serialised observation with the tool's name
  and the string the tool returned on the step's input.  The pass then continues.
\<close>

theorem tool_step_appends_one_observation:
  "(step_type E r = Some (JString ''TOOL'') \<and> step_field E r ''tool'' = JString n \<and>
    app_tools E n = Some f \<longrightarrow>
      (\<exists>result w' s'.
         f (step_field E r ''input'') (world s) = (Inr result, w') \<and>
         app_step E r s = (Continue, s') \<and>
         message_history s' =
           message_history s @
             [assistant r,
              \<lparr>role = Developer, content = json_dumps E (observation (JString n) result)\<rparr>]))
   \<and> (step_type E r = Some (JString ''TOOL'') \<and> step_field E r ''tool'' = JString n \<and>
        cli_tools E n = Some g \<longrightarrow>
      (\<exists>result w' s'.
         g (step_field E r ''input'') (world s) = (Inr result, w') \<and>
         cli_step E r s = (Continue, s') \<and>
         message_history s' =
           message_history s @
             [assistant r,
              \<lparr>role = Developer, content = json_dumps E (observation (JString n) result)\<rparr>]))"
proof (intro conjI impI)
  assume a: "step_type E r = Some (JString ''TOOL'') \<and> step_field E r ''tool'' = JString n \<and>
    app_tools E n = Some f"
  then obtain result w' where
    f: "f (step_field E r ''input'') (world s) = (Inr result, w')"
    using app_tools_return [of E n f] by blast
  show "\<exists>result w' s'.
         f (step_field E r ''input'') (world s) = (Inr result, w') \<and>
         app_step E r s = (Continue, s') \<and>
         message_history s' =
           message_history s @
             [assistant r,
              \<lparr>role = Developer, content = json_dumps E (observation (JString n) result)\<rparr>]"
    using a f app_step_tool [of E r n f s result w']
    by (simp add: append_message_def print_def)
next
  assume a: "step_type E r = Some (JString ''TOOL'') \<and> step_field E r ''tool'' = JString n \<and>
    cli_tools E n = Some g"
  then obtain result w' where
    g: "g (step_field E r ''input'') (world s) = (Inr result, w')"
    using cli_tools_return [of E n g] by blast
  show "\<exists>result w' s'.
         g (step_field E r ''input'') (world s) = (Inr result, w') \<and>
         cli_step E r s = (Continue, s') \<and>
         message_history s' =
           message_history s @
             [assistant r,
              \<lparr>role = Developer, content = json_dumps E (observation (JString n) result)\<rparr>]"
    using a g cli_step_tool [of E r n g s result w']
    by (simp add: append_message_def print_def)
qed

theorem tool_step_appends_one_observation_witness:
  \<open>\<exists>s'. app_step example_env ''{"step": "TOOL", "tool": "get_weather", "input": "Paris"}''
           example_start = (Continue, s') \<and>
        message_history s' =
          [\<lparr>role = System, content = ''You are an agent.''\<rparr>,
           \<lparr>role = Assistant,
            content = ''{"step": "TOOL", "tool": "get_weather", "input": "Paris"}''\<rparr>,
           \<lparr>role = Developer,
            content =
              ''{"step": "OBSERVE", "tool": "get_weather", "output": "The weather in Paris is Sunny +21C"}''\<rparr>]\<close>
proof -
  have run: "get_weather example_env (JString ''Paris'') (world example_start)
               = (Inr ''The weather in Paris is Sunny +21C'', 1)"
    by code_simp
  have dumps: \<open>json_dumps example_env
                 (observation (JString ''get_weather'') ''The weather in Paris is Sunny +21C'')
               = ''{"step": "OBSERVE", "tool": "get_weather", "output": "The weather in Paris is Sunny +21C"}''\<close>
    by code_simp
  have asst: \<open>assistant ''{"step": "TOOL", "tool": "get_weather", "input": "Paris"}''
               = \<lparr>role = Assistant,
                  content = ''{"step": "TOOL", "tool": "get_weather", "input": "Paris"}''\<rparr>\<close>
    by code_simp
  show ?thesis
    using tool_step_appends_one_observation
      [of example_env \<open>''{"step": "TOOL", "tool": "get_weather", "input": "Paris"}''\<close>
          "''get_weather''" "get_weather example_env" example_start]
      example_tool_reply example_registries(1) run dumps asst example_history
    by auto
qed



text \<open>
  C5.  A reply that decodes to a \<open>TOOL\<close> step whose tool name is not a key of the registry
  ends the run with the exception of the lookup \<^verbatim>\<open>tools[tool_name]\<close> (a \<^verbatim>\<open>KeyError\<close>, or a
  \<^verbatim>\<open>TypeError\<close> for a name that cannot be hashed): the outcomes of the service that follow
  are not used, the memory has gained the assistant's reply and nothing else, and no tool
  has acted on the world.
\<close>

theorem unknown_tool_aborts:
  "(step_type E r = Some (JString ''TOOL'') \<and>
    step_field E r ''tool'' \<notin> JString ` dom (app_tools E) \<longrightarrow>
      (\<exists>e s'.
         (e = KeyError (step_field E r ''tool'') \<or> e = TypeError (step_field E r ''tool'')) \<and>
         app_loop E (Reply r # rest) s = (Some (Inl e), s', rest) \<and>
         message_history s' = message_history s @ [assistant r] \<and> world s' = world s))
   \<and> (step_type E r = Some (JString ''TOOL'') \<and>
        step_field E r ''tool'' \<notin> JString ` dom (cli_tools E) \<longrightarrow>
      (\<exists>e s'.
         (e = KeyError (step_field E r ''tool'') \<or> e = TypeError (step_field E r ''tool'')) \<and>
         cli_loop E (Reply r # rest) s = (Some (Inl e), s', rest) \<and>
         message_history s' = message_history s @ [assistant r] \<and> world s' = world s))"
proof (intro conjI impI)
  assume a: "step_type E r = Some (JString ''TOOL'') \<and>
    step_field E r ''tool'' \<notin> JString ` dom (app_tools E)"
  then obtain e where
    e: "lookup_tool (app_tools E) (step_field E r ''tool'') = Inl e"
      "e = KeyError (step_field E r ''tool'') \<or> e = TypeError (step_field E r ''tool'')"
    using lookup_tool_absent [of "step_field E r ''tool''" "app_tools E"] by blast
  have "app_loop E (Reply r # rest) s =
          (Some (Inl e),
           print [ToolCallNotice (step_field E r ''tool'') (step_field E r ''input'')]
             (append_message (assistant r) s), rest)"
    using a e(1) by (simp add: app_step_tool_missing)
  with e(2) show "\<exists>e s'.
         (e = KeyError (step_field E r ''tool'') \<or> e = TypeError (step_field E r ''tool'')) \<and>
         app_loop E (Reply r # rest) s = (Some (Inl e), s', rest) \<and>
         message_history s' = message_history s @ [assistant r] \<and> world s' = world s"
    by (simp add: print_def append_message_def)
next
  assume a: "step_type E r = Some (JString ''TOOL'') \<and>
    step_field E r ''tool'' \<notin> JString ` dom (cli_tools E)"
  then obtain e where
    e: "lookup_tool (cli_tools E) (step_field E r ''tool'') = Inl e"
      "e = KeyError (step_field E r ''tool'') \<or> e = TypeError (step_field E r ''tool'')"
    using lookup_tool_absent [of "step_field E r ''tool''" "cli_tools E"] by blast
  have "cli_loop E (Reply r # rest) s =
          (Some (Inl e),
           print [ToolNameNotice (step_field E r ''tool'')] (append_message (assistant r) s),
           rest)"
    using a e(1) by (simp add: cli_loop_reply cli_step_tool_missing)
  with e(2) show "\<exists>e s'.
         (e = KeyError (step_field E r ''tool'') \<or> e = TypeError (step_field E r ''tool'')) \<and>
         cli_loop E (Reply r # rest) s = (Some (Inl e), s', rest) \<and>
         message_history s' = message_history s @ [assistant r] \<and> world s' = world s"
    by (simp add: print_def append_message_def)
qed

theorem unknown_tool_aborts_witness:
  \<open>\<exists>e s'.
     (e = KeyError (JString ''delete_everything'') \<or> e = TypeError (JString ''delete_everything'')) \<and>
     app_loop example_env
       [Reply ''{"step": "TOOL", "tool": "delete_everything", "input": "x"}'', Reply ''later'']
       example_start = (Some (Inl e), s', [Reply ''later'']) \<and>
     message_history s' =
       [\<lparr>role = System, content = ''You are an agent.''\<rparr>,
        \<lparr>role = Assistant,
         content = ''{"step": "TOOL", "tool": "delete_everything", "input": "x"}''\<rparr>]\<close>
proof -
  have asst: \<open>assistant ''{"step": "TOOL", "tool": "delete_everything", "input": "x"}''
               = \<lparr>role = Assistant,
                  content = ''{"step": "TOOL", "tool": "delete_everything", "input": "x"}''\<rparr>\<close>
    by code_simp
  show ?thesis
    using unknown_tool_aborts
      [of example_env \<open>''{"step": "TOOL", "tool": "delete_everything", "input": "x"}''\<close>
          "[Reply ''later'']" example_start]
      example_unknown_tool_reply(1,2) example_registries(3) asst example_history
    by auto
qed

text \<open>
  C6, as amended.  A reply that decodes to an \<open>OUTPUT\<close> step ends the loop at once: the
  value of the step's \<^verbatim>\<open>content\<close> is printed as the answer, the assistant's reply is the
  only message appended, the later outcomes of the service are not used, and \<^verbatim>\<open>run_agent\<close>
  returns \<^verbatim>\<open>None\<close>.  The content is printed, not returned.
\<close>

theorem output_step_prints_and_returns_none:
  "step_type E r = Some (JString ''OUTPUT'') \<longrightarrow>
     app_loop E (Reply r # rest) s =
       (Some (Inr JNull),
        print [AnswerNotice (step_field E r ''content'')] (append_message (assistant r) s),
        rest)
     \<and> cli_loop E (Reply r # rest) s =
       (Some (Inr JNull),
        print [AnswerNotice (step_field E r ''content'')] (append_message (assistant r) s),
        rest)"
  by (simp add: app_step_output cli_loop_reply cli_step_output)

theorem output_step_prints_and_returns_none_witness:
  \<open>app_loop example_env [Reply ''{"step": "OUTPUT", "content": "It is sunny"}'', Reply ''later'']
     example_start =
     (Some (Inr JNull),
      \<lparr>message_history =
         [\<lparr>role = System, content = ''You are an agent.''\<rparr>,
          \<lparr>role = Assistant, content = ''{"step": "OUTPUT", "content": "It is sunny"}''\<rparr>],
       console = [AnswerNotice (JString ''It is sunny'')], world = 0\<rparr>,
      [Reply ''later''])\<close>
proof -
  have st: \<open>print [AnswerNotice (JString ''It is sunny'')]
              (append_message (assistant ''{"step": "OUTPUT", "content": "It is sunny"}'')
                 example_start)
            = \<lparr>message_history =
                 [\<lparr>role = System, content = ''You are an agent.''\<rparr>,
                  \<lparr>role = Assistant,
                   content = ''{"step": "OUTPUT", "content": "It is sunny"}''\<rparr>],
               console = [AnswerNotice (JString ''It is sunny'')], world = 0\<rparr>\<close>
    by code_simp
  show ?thesis
    using output_step_prints_and_returns_none
      [of example_env \<open>''{"step": "OUTPUT", "content": "It is sunny"}''\<close>
          "[Reply ''later'']" example_start]
      example_output_reply st
    by simp
qed

text \<open>
  The claim as it was stated fails: on an \<open>OUTPUT\<close> step with content \<^verbatim>\<open>It is sunny\<close>, both
  programs return \<^verbatim>\<open>None\<close>, not the content.
\<close>

theorem output_content_not_returned:
  \<open>step_type example_env ''{"step": "OUTPUT", "content": "It is sunny"}''
      = Some (JString ''OUTPUT'')
   \<and> step_field example_env ''{"step": "OUTPUT", "content": "It is sunny"}'' ''content''
      = JString ''It is sunny''
   \<and> fst (app_run_agent example_env ''weather in Paris''
             [Reply ''{"step": "OUTPUT", "content": "It is sunny"}''] example_start)
      = Some (Inr JNull)
   \<and> fst (cli_run_agent example_env ''weather in Paris''
             [Reply ''{"step": "OUTPUT", "content": "It is sunny"}''] example_start)
      = Some (Inr JNull)
   \<and> fst (app_run_agent example_env ''weather in Paris''
             [Reply ''{"step": "OUTPUT", "content": "It is sunny"}''] example_start)
      \<noteq> Some (Inr (JString ''It is sunny''))\<close>
  by code_simp

text \<open>
  C4, as amended.  A reply that decodes to an object whose \<^verbatim>\<open>step\<close> is absent (\<^verbatim>\<open>None\<close>) or
  is any value other than \<open>PLAN\<close>, \<open>TOOL\<close> and \<open>OUTPUT\<close> raises nothing: no branch of the
  loop body applies, the pass ends having appended the assistant's reply only, and the
  loop goes on to the next call of the model.
\<close>

theorem unrecognised_step_is_ignored:
  "step_type E r = Some t \<and> t \<notin> {JString ''PLAN'', JString ''TOOL'', JString ''OUTPUT''} \<longrightarrow>
     app_step E r s = (Continue, append_message (assistant r) s)
     \<and> cli_step E r s = (Continue, append_message (assistant r) s)
     \<and> app_loop E (Reply r # rest) s = app_loop E rest (append_message (assistant r) s)
     \<and> cli_loop E (Reply r # rest) s = cli_loop E rest (append_message (assistant r) s)"
  by (simp add: app_step_other cli_step_other cli_loop_reply)

theorem unrecognised_step_is_ignored_witness:
  \<open>app_step example_env ''{"step": "THINK", "content": "hm"}'' example_start =
     (Continue,
      \<lparr>message_history =
         [\<lparr>role = System, content = ''You are an agent.''\<rparr>,
          \<lparr>role = Assistant, content = ''{"step": "THINK", "content": "hm"}''\<rparr>],
       console = [], world = 0\<rparr>)\<close>
proof -
  have st: \<open>append_message (assistant ''{"step": "THINK", "content": "hm"}'') example_start
            = \<lparr>message_history =
                 [\<lparr>role = System, content = ''You are an agent.''\<rparr>,
                  \<lparr>role = Assistant, content = ''{"step": "THINK", "content": "hm"}''\<rparr>],
               console = [], world = 0\<rparr>\<close>
    by code_simp
  show ?thesis
    using unrecognised_step_is_ignored
      [of example_env \<open>''{"step": "THINK", "content": "hm"}''\<close> "JString ''THINK''"
          example_start "[]"]
      example_think_reply st
    by simp
qed

text \<open>
  The claim as it was stated fails: a step of kind \<open>THINK\<close> is passed over without an
  exception, and the run goes on to its \<open>OUTPUT\<close> step and returns.
\<close>

theorem unrecognised_step_raises_nothing:
  \<open>step_type example_env ''{"step": "THINK", "content": "hm"}'' = Some (JString ''THINK'')
   \<and> fst (app_step example_env ''{"step": "THINK", "content": "hm"}'' example_start) = Continue
   \<and> fst (cli_step example_env ''{"step": "THINK", "content": "hm"}'' example_start) = Continue
   \<and> fst (app_run_agent example_env ''weather in Paris''
             [Reply ''{"step": "THINK", "content": "hm"}'',
              Reply ''{"step": "OUTPUT", "content": "It is sunny"}''] example_start)
      = Some (Inr JNull)
   \<and> fst (cli_run_agent example_env ''weather in Paris''
             [Reply ''{"step": "THINK", "content": "hm"}'',
              Reply ''{"step": "OUTPUT", "content": "It is sunny"}''] example_start)
      = Some (Inr JNull)\<close>
  by code_simp

text \<open>
  C3.  The reply \<^verbatim>\<open>[]\<close> is valid JSON and carries no step.  In both programs the run ends
  there with the \<^verbatim>\<open>AttributeError\<close> of \<^verbatim>\<open>step.get\<close>, which nothing catches: no further call
  of the model is made (the outcome that follows is left unused).
\<close>

theorem non_object_reply_aborts:
  \<open>decoded example_env ''[]'' = Inr (JArray [])
   \<and> app_run_agent example_env ''weather in Paris''
         [Reply ''[]'', Reply ''{"step": "OUTPUT", "content": "It is sunny"}''] example_start
       = (Some (Inl (AttributeError (JArray []) ''get'')),
          \<lparr>message_history =
             [\<lparr>role = System, content = ''You are an agent.''\<rparr>,
              \<lparr>role = User, content = ''weather in Paris''\<rparr>,
              \<lparr>role = Assistant, content = ''[]''\<rparr>],
           console = [], world = 0\<rparr>,
          [Reply ''{"step": "OUTPUT", "content": "It is sunny"}''])
   \<and> cli_run_agent example_env ''weather in Paris''
         [Reply ''[]'', Reply ''{"step": "OUTPUT", "content": "It is sunny"}''] example_start
       = (Some (Inl (AttributeError (JArray []) ''get'')),
          \<lparr>message_history =
             [\<lparr>role = System, content = ''You are an agent.''\<rparr>,
              \<lparr>role = User, content = ''weather in Paris''\<rparr>,
              \<lparr>role = Assistant, content = ''[]''\<rparr>],
           console = [], world = 0\<rparr>,
          [Reply ''{"step": "OUTPUT", "content": "It is sunny"}''])\<close>
  by code_simp

text \<open>
  C2, as amended.  In cli.py the gateway \<^verbatim>\<open>safe_llm_call\<close> answers a failure that signals
  rate limiting, and shows the status 429 in its text, with a notice, a sleep of five
  seconds and another call, any number of times in a row, and then hands the reply to
  the loop; a failure that does not signal rate limiting, and does not show 429 in its
  text, is raised again and ends the run.  In app.py the call is made directly: every
  failure of the service, rate limiting included, ends the run at once.  (Nothing is
  said of a failure whose text and status disagree about rate limiting.)
\<close>

theorem rate_limit_retried_in_cli_only:
  "(list_all (\<lambda>x. signals_rate_limit x \<and> text_has_429 x) xs \<longrightarrow>
      safe_llm_call (xs @ Reply r # rest) s
        = (Some (Inr r), print (backoffs (length xs)) s, rest)
      \<and> cli_loop E (xs @ service) s
        = cli_loop E service (print (backoffs (length xs)) s))
   \<and> (\<not> signals_rate_limit (Fail status m) \<and> \<not> text_has_429 (Fail status m) \<longrightarrow>
        safe_llm_call (Fail status m # rest) s = (Some (Inl (External m)), s, rest)
        \<and> cli_loop E (Fail status m # rest) s = (Some (Inl (External m)), s, rest))
   \<and> app_loop E (Fail status m # rest) s = (Some (Inl (External m)), s, rest)"
proof -
  have retry: "safe_llm_call (xs @ service') s
                 = safe_llm_call service' (print (backoffs (length xs)) s)"
    if "list_all (\<lambda>x. signals_rate_limit x \<and> text_has_429 x) xs" for service'
  proof -
    from that have "list_all text_has_429 xs"
      by (simp add: list_all_iff)
    then show ?thesis by (rule safe_llm_call_retries)
  qed
  have loop: "cli_loop E (xs @ service) s
                = cli_loop E service (print (backoffs (length xs)) s)"
    if "list_all (\<lambda>x. signals_rate_limit x \<and> text_has_429 x) xs"
    by (subst cli_loop.simps, subst (2) cli_loop.simps) (simp add: retry [OF that])
  have fatal: "cli_loop E (Fail status m # rest) s = (Some (Inl (External m)), s, rest)"
    if "\<not> text_has_429 (Fail status m)"
    using that by (subst cli_loop.simps) (simp add: text_has_429_def)
  show ?thesis
    using retry [of "Reply r # rest"] loop fatal by (simp add: text_has_429_def)
qed

theorem rate_limit_retried_in_cli_only_witness:
  "safe_llm_call
     [Fail (Some 429) ''Error code: 429 - too many requests'',
      Fail (Some 429) ''Error code: 429 - too many requests'',
      Reply ''ok'', Reply ''later''] example_start
   = (Some (Inr ''ok''),
      \<lparr>message_history = [\<lparr>role = System, content = ''You are an agent.''\<rparr>],
       console = [RateLimitNotice, Sleep 5, RateLimitNotice, Sleep 5], world = 0\<rparr>,
      [Reply ''later''])
   \<and> safe_llm_call [Fail (Some 500) ''Error code: 500 - internal error'', Reply ''ok'']
        example_start
   = (Some (Inl (External ''Error code: 500 - internal error'')), example_start, [Reply ''ok''])"
proof -
  let ?limit = "Fail (Some 429) ''Error code: 429 - too many requests''"
  have limited: "list_all (\<lambda>x. signals_rate_limit x \<and> text_has_429 x) [?limit, ?limit]"
    by code_simp
  have other:
    "\<not> signals_rate_limit (Fail (Some 500) ''Error code: 500 - internal error'')"
    "\<not> text_has_429 (Fail (Some 500) ''Error code: 500 - internal error'')"
    by code_simp+
  have st: "print (backoffs (length [?limit, ?limit])) example_start
            = \<lparr>message_history = [\<lparr>role = System, content = ''You are an agent.''\<rparr>],
               console = [RateLimitNotice, Sleep 5, RateLimitNotice, Sleep 5], world = 0\<rparr>"
    by code_simp
  show ?thesis
    using rate_limit_retried_in_cli_only
        [of "[?limit, ?limit]" "''ok''" "[Reply ''later'']" example_start example_env "[]"
            "Some 500" "''Error code: 500 - internal error''"]
      rate_limit_retried_in_cli_only
        [of "[]" "''ok''" "[Reply ''ok'']" example_start example_env "[]"
            "Some 500" "''Error code: 500 - internal error''"]
      limited other st
    by simp
qed

text \<open>
  The claim as it was stated fails.  In app.py a failure that signals rate limiting ends
  the run, and the reply that the service would have given next is never asked for.  In
  cli.py the test is on the text alone: a refused request (status 400) whose text happens
  to contain the digits is answered by a backoff and another call, and a failure with
  status 429 whose text does not show the digits ends the run.
\<close>

theorem rate_limit_handling_differs:
  \<open>signals_rate_limit (Fail (Some 429) ''Error code: 429 - too many requests'')
   \<and> app_run_agent example_env ''weather in Paris''
        [Fail (Some 429) ''Error code: 429 - too many requests'',
         Reply ''{"step": "OUTPUT", "content": "It is sunny"}''] example_start
      = (Some (Inl (External ''Error code: 429 - too many requests'')),
         \<lparr>message_history =
            [\<lparr>role = System, content = ''You are an agent.''\<rparr>,
             \<lparr>role = User, content = ''weather in Paris''\<rparr>],
          console = [], world = 0\<rparr>,
         [Reply ''{"step": "OUTPUT", "content": "It is sunny"}''])
   \<and> \<not> signals_rate_limit (Fail (Some 400) ''requested 14290 tokens'')
   \<and> safe_llm_call [Fail (Some 400) ''requested 14290 tokens'', Reply ''ok''] example_start
      = (Some (Inr ''ok''),
         \<lparr>message_history = [\<lparr>role = System, content = ''You are an agent.''\<rparr>],
          console = [RateLimitNotice, Sleep 5], world = 0\<rparr>,
         [])
   \<and> signals_rate_limit (Fail (Some 429) ''Too Many Requests'')
   \<and> safe_llm_call [Fail (Some 429) ''Too Many Requests'', Reply ''ok''] example_start
      = (Some (Inl (External ''Too Many Requests'')),
         \<lparr>message_history = [\<lparr>role = System, content = ''You are an agent.''\<rparr>],
          console = [], world = 0\<rparr>,
         [Reply ''ok''])\<close>
  by code_simp

text \<open>
  C1, as amended.  The loop of \<^verbatim>\<open>run_agent\<close> returns exactly when a pass decodes an
  \<open>OUTPUT\<close> step.  If it returns, the last outcome of the service it used is a reply that
  decodes to an \<open>OUTPUT\<close> step, no outcome before it does, and the value returned is
  \<^verbatim>\<open>None\<close>; and a reply that decodes to an \<open>OUTPUT\<close> step makes the loop return at once,
  leaving the later outcomes unused.  A pass goes on to another call of the model when
  the reply is not valid JSON, or decodes to a \<open>PLAN\<close> step, to a \<open>TOOL\<close> step naming a
  registered tool, or to an object with any other step.  (The run can also end without
  \<open>OUTPUT\<close>, by an exception; that is not a return.)
\<close>

theorem loop_returns_iff_output:
  "((app_loop E service s = (Some (Inr v), s', rest) \<or>
     cli_loop E service s = (Some (Inr v), s', rest)) \<longrightarrow>
      (\<exists>pre r'. service = pre @ Reply r' # rest \<and>
                 step_type E r' = Some (JString ''OUTPUT'') \<and>
                 list_all (\<lambda>x. \<not> is_output E x) pre \<and> v = JNull))
   \<and> (step_type E r = Some (JString ''OUTPUT'') \<longrightarrow>
        (\<exists>s1. app_loop E (Reply r # rest) s = (Some (Inr JNull), s1, rest)) \<and>
        (\<exists>s1. cli_loop E (Reply r # rest) s = (Some (Inr JNull), s1, rest)))
   \<and> (decoded E r = Inl m \<or> step_type E r = Some (JString ''PLAN'') \<or>
        (step_type E r = Some t \<and>
         t \<notin> {JString ''PLAN'', JString ''TOOL'', JString ''OUTPUT''}) \<longrightarrow>
        (\<exists>s1. app_step E r s = (Continue, s1) \<and>
              app_loop E (Reply r # rest) s = app_loop E rest s1) \<and>
        (\<exists>s1. cli_step E r s = (Continue, s1) \<and>
              cli_loop E (Reply r # rest) s = cli_loop E rest s1))
   \<and> (step_type E r = Some (JString ''TOOL'') \<and>
        step_field E r ''tool'' \<in> JString ` dom (app_tools E) \<longrightarrow>
        (\<exists>s1. app_step E r s = (Continue, s1) \<and>
              app_loop E (Reply r # rest) s = app_loop E rest s1))
   \<and> (step_type E r = Some (JString ''TOOL'') \<and>
        step_field E r ''tool'' \<in> JString ` dom (cli_tools E) \<longrightarrow>
        (\<exists>s1. cli_step E r s = (Continue, s1) \<and>
              cli_loop E (Reply r # rest) s = cli_loop E rest s1))"
proof -
  have only_if: "\<exists>pre r'. service = pre @ Reply r' # rest \<and>
                 step_type E r' = Some (JString ''OUTPUT'') \<and>
                 list_all (\<lambda>x. \<not> is_output E x) pre \<and> v = JNull"
    if "app_loop E service s = (Some (Inr v), s', rest) \<or>
        cli_loop E service s = (Some (Inr v), s', rest)"
    using that app_loop_returns_only_after_output [of E service s v s' rest]
      cli_loop_returns_only_after_output [of E service s v s' rest]
    by blast
  have out: "(\<exists>s1. app_loop E (Reply r # rest) s = (Some (Inr JNull), s1, rest)) \<and>
        (\<exists>s1. cli_loop E (Reply r # rest) s = (Some (Inr JNull), s1, rest))"
    if "step_type E r = Some (JString ''OUTPUT'')"
    using that by (simp add: app_step_output cli_loop_reply cli_step_output)
  have app_go: "\<exists>s1. app_step E r s = (Continue, s1) \<and>
              app_loop E (Reply r # rest) s = app_loop E rest s1"
    if "fst (app_step E r s) = Continue"
    using that by (cases "app_step E r s") simp
  have cli_go: "\<exists>s1. cli_step E r s = (Continue, s1) \<and>
              cli_loop E (Reply r # rest) s = cli_loop E rest s1"
    if "fst (cli_step E r s) = Continue"
    using that by (cases "cli_step E r s") (simp add: cli_loop_reply)
  have quiet: "fst (app_step E r s) = Continue \<and> fst (cli_step E r s) = Continue"
    if "decoded E r = Inl m \<or> step_type E r = Some (JString ''PLAN'') \<or>
        (step_type E r = Some t \<and>
         t \<notin> {JString ''PLAN'', JString ''TOOL'', JString ''OUTPUT''})"
    using that
    by (auto simp: app_step_invalid cli_step_invalid app_step_plan cli_step_plan
        app_step_other cli_step_other)
  have app_tool: "fst (app_step E r s) = Continue"
    if a: "step_type E r = Some (JString ''TOOL'') \<and>
        step_field E r ''tool'' \<in> JString ` dom (app_tools E)"
  proof -
    from a obtain n f where n: "step_field E r ''tool'' = JString n" "app_tools E n = Some f"
      by auto
    obtain result w' where "f (step_field E r ''input'') (world s) = (Inr result, w')"
      using app_tools_return [OF n(2)] by blast
    with a n show ?thesis by (simp add: app_step_tool)
  qed
  have cli_tool: "fst (cli_step E r s) = Continue"
    if a: "step_type E r = Some (JString ''TOOL'') \<and>
        step_field E r ''tool'' \<in> JString ` dom (cli_tools E)"
  proof -
    from a obtain n f where n: "step_field E r ''tool'' = JString n" "cli_tools E n = Some f"
      by auto
    obtain result w' where "f (step_field E r ''input'') (world s) = (Inr result, w')"
      using cli_tools_return [OF n(2)] by blast
    with a n show ?thesis by (simp add: cli_step_tool)
  qed
  show ?thesis
    using only_if out app_go cli_go quiet app_tool cli_tool by blast
qed

theorem loop_returns_iff_output_witness:
  \<open>fst (app_loop example_env
           [Reply ''{"step": "PLAN", "content": "look up the weather"}'',
            Reply ''{"step": "OUTPUT", "content": "It is sunny"}''] example_start)
     = Some (Inr JNull)\<close>
proof -
  let ?plan = \<open>''{"step": "PLAN", "content": "look up the weather"}''\<close>
  let ?out = \<open>''{"step": "OUTPUT", "content": "It is sunny"}''\<close>
  obtain s1 where
    "app_loop example_env (Reply ?plan # [Reply ?out]) example_start
       = app_loop example_env [Reply ?out] s1"
    using loop_returns_iff_output
      [of example_env "[]" example_start JNull example_start "[Reply ?out]" ?plan]
      example_plan_reply
    by blast
  moreover obtain s2 where
    "app_loop example_env (Reply ?out # []) s1 = (Some (Inr JNull), s2, [])"
    using loop_returns_iff_output [of example_env "[]" s1 JNull s1 "[]" ?out]
      example_output_reply(1)
    by blast
  ultimately show ?thesis by simp
qed

text \<open>
  The claim as it was stated fails: a \<open>TOOL\<close> step naming \<^verbatim>\<open>delete_everything\<close> ends the
  loop although no \<open>OUTPUT\<close> step was decoded, and the pass is not followed by another call
  of the model (the next outcome of the service stays unused).
\<close>

theorem unknown_tool_ends_loop_without_output:
  \<open>step_type example_env ''{"step": "TOOL", "tool": "delete_everything", "input": "x"}''
      = Some (JString ''TOOL'')
   \<and> app_run_agent example_env ''weather in Paris''
        [Reply ''{"step": "TOOL", "tool": "delete_everything", "input": "x"}'',
         Reply ''{"step": "OUTPUT", "content": "It is sunny"}''] example_start
      = (Some (Inl (KeyError (JString ''delete_everything''))),
         \<lparr>message_history =
            [\<lparr>role = System, content = ''You are an agent.''\<rparr>,
             \<lparr>role = User, content = ''weather in Paris''\<rparr>,
             \<lparr>role = Assistant,
              content = ''{"step": "TOOL", "tool": "delete_everything", "input": "x"}''\<rparr>],
          console = [ToolCallNotice (JString ''delete_everything'') (JString ''x'')],
          world = 0\<rparr>,
         [Reply ''{"step": "OUTPUT", "content": "It is sunny"}''])
   \<and> cli_run_agent example_env ''weather in Paris''
        [Reply ''{"step": "TOOL", "tool": "delete_everything", "input": "x"}'',
         Reply ''{"step": "OUTPUT", "content": "It is sunny"}''] example_start
      = (Some (Inl (KeyError (JString ''delete_everything''))),
         \<lparr>message_history =
            [\<lparr>role = System, content = ''You are an agent.''\<rparr>,
             \<lparr>role = User, content = ''weather in Paris''\<rparr>,
             \<lparr>role = Assistant,
              content = ''{"step": "TOOL", "tool": "delete_everything", "input": "x"}''\<rparr>],
          console = [ToolNameNotice (JString ''delete_everything'')],
          world = 0\<rparr>,
         [Reply ''{"step": "OUTPUT", "content": "It is sunny"}''])\<close>
  by code_simp

text \<open>
  C8.  The memory starts as one system message.  A run of \<^verbatim>\<open>run_agent\<close>, of either program,
  on any list of outcomes of the service and from any memory, leaves the memory it found
  as a prefix of the memory it ends with, and every message after the prefix is not a
  system message; the memory is strictly longer at the end (the user's message is always
  appended).  The same holds between the run on the first \<open>k\<close> outcomes and the run on all
  of them, that is, between any moment of a run and its end: the length never decreases
  and no message is moved, replaced or removed.  So a memory that begins with exactly one
  system message still does after the run.
\<close>

theorem memory_only_grows:
  "one_system_message (message_history (initial_state p w))
   \<and> (run = app_run_agent E q \<or> run = cli_run_agent E q \<longrightarrow>
        appended_only (message_history s) (message_history (fst (snd (run service s))))
        \<and> length (message_history s) < length (message_history (fst (snd (run service s))))
        \<and> appended_only (message_history (fst (snd (run (take k service) s))))
             (message_history (fst (snd (run service s))))
        \<and> length (message_history (fst (snd (run (take k service) s))))
             \<le> length (message_history (fst (snd (run service s))))
        \<and> (one_system_message (message_history s) \<longrightarrow>
             one_system_message (message_history (fst (snd (run service s))))))"
proof -
  let ?u = "append_message \<lparr>role = User, content = q\<rparr> s"
  have init: "one_system_message (message_history (initial_state p w))"
    by (simp add: initial_state_def one_system_message_def)
  have user: "appended_only (message_history s) (message_history ?u)"
    by (simp add: append_message_def appended_only_def)
  have user_len: "length (message_history s) < length (message_history ?u)"
    by (simp add: append_message_def)
  have body: "appended_only (message_history s) (message_history (fst (snd (run service s))))
        \<and> length (message_history s) < length (message_history (fst (snd (run service s))))
        \<and> appended_only (message_history (fst (snd (run (take k service) s))))
             (message_history (fst (snd (run service s))))
        \<and> length (message_history (fst (snd (run (take k service) s))))
             \<le> length (message_history (fst (snd (run service s))))
        \<and> (one_system_message (message_history s) \<longrightarrow>
             one_system_message (message_history (fst (snd (run service s)))))"
    if loop: "\<And>xs. run xs s = loop xs ?u"
      and grows: "\<And>xs. appended_only (message_history ?u) (message_history (fst (snd (loop xs ?u))))"
      and mono: "appended_only (message_history (fst (snd (loop (take k service) ?u))))
                   (message_history (fst (snd (loop service ?u))))"
    for loop
  proof -
    have a: "appended_only (message_history s) (message_history (fst (snd (run service s))))"
      using user grows [of service] loop [of service] by (auto intro: appended_only_trans)
    have b: "length (message_history s) < length (message_history (fst (snd (run service s))))"
      using user_len appended_only_length [OF grows [of service]] loop [of service] by simp
    have c: "appended_only (message_history (fst (snd (run (take k service) s))))
             (message_history (fst (snd (run service s))))"
      using mono loop by simp
    show ?thesis
      using a b c appended_only_length [OF c] one_system_message_appended [OF _ a] by blast
  qed
  have app: ?thesis if "run = app_run_agent E q"
    using init that
      body [of "app_loop E", OF _ app_loop_appended app_loop_take]
    by (simp add: app_run_agent_def)
  have cli: ?thesis if "run = cli_run_agent E q"
    using init that
      body [of "cli_loop E", OF _ cli_loop_appended cli_loop_take]
    by (simp add: cli_run_agent_def)
  show ?thesis
    using init app cli by blast
qed

theorem memory_only_grows_witness:
  \<open>one_system_message
     (message_history (fst (snd (app_run_agent example_env ''weather in Paris''
        [Reply ''{"step": "PLAN", "content": "look up the weather"}'',
         Reply ''{"step": "TOOL", "tool": "get_weather", "input": "Paris"}'',
         Reply ''{"step": "OUTPUT", "content": "It is sunny"}''] example_start))))\<close>
proof -
  have "one_system_message (message_history example_start)"
    using memory_only_grows [of "''You are an agent.''" "0::nat", THEN conjunct1]
    by (simp add: example_start_def)
  then show ?thesis
    using memory_only_grows
      [of "''You are an agent.''" "0::nat" "app_run_agent example_env ''weather in Paris''"
          example_env "''weather in Paris''" example_start]
    by blast
qed

end
